theory Spec2Isabelle
  imports Main
begin

section \<open>Values that cross the boundary: JSON and thrown values\<close>

text \<open>
  Payloads, handler results and response bodies are JSON. The dispatcher only looks at the
  outer shape of a payload, so numbers are kept as integers (error codes are integers;
  payload numbers are opaque to every function embedded here).
\<close>

datatype json =
    JNull
  | JBool bool
  | JNum int
  | JStr string
  | JArr "json list"
  | JObj "(string \<times> json) list"

text \<open>
  What a \<^verbatim>\<open>throw\<close> carries: an instance of \<^verbatim>\<open>Error\<close> (any subclass) with its
  message, or any other value (the client throws bare numbers).
\<close>

datatype thrown =
    Error string
  | NonError json

text \<open>JavaScript truthiness of a property that may be \<^verbatim>\<open>undefined\<close> (\<open>None\<close>).\<close>

fun truthy :: "json option \<Rightarrow> bool" where
  "truthy None = False"
| "truthy (Some JNull) = False"
| "truthy (Some (JBool b)) = b"
| "truthy (Some (JNum n)) = (n \<noteq> 0)"
| "truthy (Some (JStr s)) = (s \<noteq> [])"
| "truthy (Some (JArr xs)) = True"
| "truthy (Some (JObj kvs)) = True"

text \<open>Reading an own property of a value that is not \<^verbatim>\<open>undefined\<close> or \<^verbatim>\<open>null\<close>.\<close>

fun getProp :: "json \<Rightarrow> string \<Rightarrow> json option" where
  "getProp (JObj kvs) k = map_of kvs k"
| "getProp v k = None"

section \<open>The parts of the runtime and of the repository that the sources only import\<close>

text \<open>
  \<^verbatim>\<open>node:crypto\<close> and the JavaScript engine are not part of the repository. They are
  parameters: the SHA-256 hex digest of a string, and the messages of the two
  \<^verbatim>\<open>TypeError\<close>s the engine raises in \<^verbatim>\<open>loginHandler\<close> when the untyped payload
  is not a \<^verbatim>\<open>LoginPayload\<close>.
\<close>

record runtime =
  sha256hex :: "string \<Rightarrow> string"
  destructureMessage :: string
  invalidArgMessage :: string

section \<open>Session store (\<^verbatim>\<open>server/auth/session-store\<close>)\<close>

record Session =
  sessionId :: string
  username :: string
  createdAt :: int
  expiresAt :: int

text \<open>
  \<^verbatim>\<open>User\<close> has the fields \<^verbatim>\<open>username\<close>, \<^verbatim>\<open>passwordHash\<close> and
  \<^verbatim>\<open>createdAt\<close>; two of the names are taken by \<open>Session\<close>, hence the prefix.
\<close>

record User =
  user_username :: string
  passwordHash :: string
  user_createdAt :: int

text \<open>
  The two module-level singletons \<^verbatim>\<open>sessionStore\<close> and \<^verbatim>\<open>userStore\<close>, each a
  \<^verbatim>\<open>Map\<close> keyed by strings, and \<open>world\<close>: everything else a handler may read or
  change (database, file system).
\<close>

record 'w server_state =
  users :: "string \<rightharpoonup> User"
  sessions :: "string \<rightharpoonup> Session"
  world :: 'w

definition SESSION_DURATION_MS :: int where
  "SESSION_DURATION_MS = 7 * 24 * 60 * 60 * 1000"

text \<open>Decimal rendering of \<^verbatim>\<open>Date.now()\<close> inside a template string.\<close>

fun digits :: "nat \<Rightarrow> string" where
  "digits n = (if n < 10 then [char_of (48 + n)] else digits (n div 10) @ [char_of (48 + n mod 10)])"

definition decimal :: "int \<Rightarrow> string" where
  "decimal i = (if i < 0 then CHR ''-'' # digits (nat (- i)) else digits (nat i))"

text \<open>
  What one call of \<^verbatim>\<open>createSession\<close> reads from outside: the clock inside
  \<^verbatim>\<open>generateSessionId\<close>, the two strings
  \<^verbatim>\<open>Math.random().toString(36).substring(2, 15)\<close>, the clock in \<^verbatim>\<open>createSession\<close>
  itself and the clock in \<^verbatim>\<open>cleanExpiredSessions\<close>.
\<close>

record reads =
  idNow :: int
  random1 :: string
  random2 :: string
  createNow :: int
  cleanNow :: int

definition generateSessionId :: "reads \<Rightarrow> string" where
  "generateSessionId r = decimal (idNow r) @ ''-'' @ random1 r @ ''-'' @ random2 r"

definition cleanExpiredSessions :: "int \<Rightarrow> 'w server_state \<Rightarrow> 'w server_state" where
  "cleanExpiredSessions now st =
     st\<lparr>sessions := (\<lambda>k. case sessions st k of
                              None \<Rightarrow> None
                            | Some s \<Rightarrow> if now > expiresAt s then None else Some s)\<rparr>"

definition createSession :: "reads \<Rightarrow> string \<Rightarrow> 'w server_state \<Rightarrow> Session \<times> 'w server_state" where
  "createSession r name st =
     (let sid = generateSessionId r;
          now = createNow r;
          session = \<lparr>sessionId = sid, username = name, createdAt = now,
                     expiresAt = now + SESSION_DURATION_MS\<rparr>;
          st1 = st\<lparr>sessions := (sessions st)(sid \<mapsto> session)\<rparr>
      in (session, cleanExpiredSessions (cleanNow r) st1))"

definition getSession :: "int \<Rightarrow> string \<Rightarrow> 'w server_state \<Rightarrow> Session option \<times> 'w server_state" where
  "getSession now sid st =
     (case sessions st sid of
        None \<Rightarrow> (None, st)
      | Some session \<Rightarrow>
          if now > expiresAt session
          then (None, st\<lparr>sessions := (sessions st)(sid := None)\<rparr>)
          else (Some session, st))"

definition deleteSession :: "string \<Rightarrow> 'w server_state \<Rightarrow> bool \<times> 'w server_state" where
  "deleteSession sid st =
     (sessions st sid \<noteq> None, st\<lparr>sessions := (sessions st)(sid := None)\<rparr>)"

definition deleteUserSessions :: "string \<Rightarrow> 'w server_state \<Rightarrow> 'w server_state" where
  "deleteUserSessions name st =
     st\<lparr>sessions := (\<lambda>k. case sessions st k of
                              None \<Rightarrow> None
                            | Some s \<Rightarrow> if username s = name then None else Some s)\<rparr>"

section \<open>User store (\<^verbatim>\<open>server/auth/user-store\<close>)\<close>

definition hashPassword :: "runtime \<Rightarrow> string \<Rightarrow> string" where
  "hashPassword rt password = sha256hex rt password"

definition createUser ::
  "runtime \<Rightarrow> int \<Rightarrow> string \<Rightarrow> string \<Rightarrow> 'w server_state \<Rightarrow> User \<times> 'w server_state" where
  "createUser rt now name password st =
     (let user = \<lparr>user_username = name, passwordHash = hashPassword rt password,
                  user_createdAt = now\<rparr>
      in (user, st\<lparr>users := (users st)(name \<mapsto> user)\<rparr>))"

text \<open>
  The state when the modules have been loaded: \<^verbatim>\<open>new SessionStore()\<close> has an empty
  map, and the constructor of \<^verbatim>\<open>UserStore\<close> calls \<^verbatim>\<open>createUser('admin', 'admin')\<close>
  on an empty map.
\<close>

definition initial_state :: "runtime \<Rightarrow> int \<Rightarrow> 'w \<Rightarrow> 'w server_state" where
  "initial_state rt now w =
     snd (createUser rt now ''admin'' ''admin''
            \<lparr>users = Map.empty, sessions = Map.empty, world = w\<rparr>)"

definition verifyCredentials :: "runtime \<Rightarrow> string \<Rightarrow> string \<Rightarrow> 'w server_state \<Rightarrow> bool" where
  "verifyCredentials rt name password st =
     (case users st name of
        None \<Rightarrow> False
      | Some user \<Rightarrow> passwordHash user = hashPassword rt password)"

definition updatePassword ::
  "runtime \<Rightarrow> string \<Rightarrow> string \<Rightarrow> 'w server_state \<Rightarrow> bool \<times> 'w server_state" where
  "updatePassword rt name newPassword st =
     (case users st name of
        None \<Rightarrow> (False, st)
      | Some user \<Rightarrow>
          (True, st\<lparr>users := (users st)(name \<mapsto> user\<lparr>passwordHash := hashPassword rt newPassword\<rparr>)\<rparr>))"

section \<open>Handlers\<close>

text \<open>
  A handler is called with the payload or with no argument, may change the state, and
  either returns a value (\<open>None\<close> for \<^verbatim>\<open>undefined\<close>) or throws.
\<close>

type_synonym 'w handler =
  "json option \<Rightarrow> 'w server_state \<Rightarrow> (thrown + json option) \<times> 'w server_state"

text \<open>
  \<^verbatim>\<open>loginHandler\<close>. The dispatcher passes the payload unchecked, so the cases outside
  \<^verbatim>\<open>LoginPayload\<close> are written out: destructuring \<^verbatim>\<open>undefined\<close> or \<^verbatim>\<open>null\<close>
  throws; a key of the users map that is not a string finds nothing; hashing a password
  that is not a string throws inside \<^verbatim>\<open>crypto\<close>, after the user has been found.
\<close>

definition loginHandler :: "runtime \<Rightarrow> reads \<Rightarrow> 'w handler" where
  "loginHandler rt r payload st =
     (case payload of
        None \<Rightarrow> (Inl (Error (destructureMessage rt)), st)
      | Some JNull \<Rightarrow> (Inl (Error (destructureMessage rt)), st)
      | Some p \<Rightarrow>
          if \<not> truthy (getProp p ''username'') \<or> \<not> truthy (getProp p ''password'')
          then (Inl (Error ''Username and password are required''), st)
          else
            (case getProp p ''username'' of
               Some (JStr name) \<Rightarrow>
                 (case getProp p ''password'' of
                    Some (JStr password) \<Rightarrow>
                      if \<not> verifyCredentials rt name password st
                      then (Inl (Error ''Invalid username or password''), st)
                      else
                        (case createSession r name st of
                           (session, st1) \<Rightarrow>
                             (Inr (Some (JObj [(''success'', JBool True),
                                               (''sessionId'', JStr (sessionId session)),
                                               (''username'', JStr (username session))])),
                              st1))
                  | _ \<Rightarrow>
                      (case users st name of
                         None \<Rightarrow> (Inl (Error ''Invalid username or password''), st)
                       | Some user \<Rightarrow> (Inl (Error (invalidArgMessage rt)), st)))
             | _ \<Rightarrow> (Inl (Error ''Invalid username or password''), st)))"

section \<open>Dispatcher (\<^verbatim>\<open>executeHandler\<close> of the HTTP server)\<close>

text \<open>
  The server imports the handler table, the message names, the error codes and the
  translation of a thrown value into an error code from modules that are not among the
  sources. They are parameters: \<open>rendererHandlers\<close> is the lookup
  \<^verbatim>\<open>rendererHandlers[messageName]\<close>, the five strings are the members of
  \<^verbatim>\<open>RendererClientMessageName\<close> the server names, \<open>UnknownError\<close> is
  \<^verbatim>\<open>ErrorCode.UnknownError\<close> (error codes are numbers).
\<close>

record 'w modules =
  rendererHandlers :: "string \<Rightarrow> 'w handler option"
  getErrorCodeFromError :: "thrown \<Rightarrow> int"
  UnknownError :: int
  InitializeApplication :: string
  ConnectDatabase :: string
  Login :: string
  Logout :: string
  CheckAuth :: string

definition handlersWithoutDatabase :: "'w modules \<Rightarrow> string set" where
  "handlersWithoutDatabase M =
     {InitializeApplication M, ConnectDatabase M, Login M, Logout M, CheckAuth M}"

definition publicHandlers :: "'w modules \<Rightarrow> string set" where
  "publicHandlers M = {InitializeApplication M, ConnectDatabase M, Login M, CheckAuth M}"

text \<open>
  Modelled from the spec: \<^verbatim>\<open>getErrorCodeFromError\<close>, which the server imports from
  \<^verbatim>\<open>./get-error-code-from-error\<close> and the sources do not include. The specification
  (dispatcher, steps 4 and 5, and the error taxonomy): a domain error is handler-specific
  and carries a nested code, from which the kind of the failure is derived; any uncaught
  exception is converted to \<^verbatim>\<open>UnknownError\<close>. A thrown \<open>Error m\<close> carries a message
  and no code, so no kind can be derived from it; \<open>nestedCode\<close> reads the code of a
  thrown value that carries one.
\<close>

definition getErrorCodeFromError_spec :: "int \<Rightarrow> (json \<Rightarrow> int option) \<Rightarrow> thrown \<Rightarrow> int" where
  "getErrorCodeFromError_spec unknown nestedCode e =
     (case e of
        Error m \<Rightarrow> unknown
      | NonError v \<Rightarrow> (case nestedCode v of None \<Rightarrow> unknown | Some code \<Rightarrow> code))"

record response =
  status :: nat
  body :: "(string \<times> json) list"

text \<open>
  \<^verbatim>\<open>payload && typeof payload === 'object' && Object.keys(payload).length > 0\<close>:
  \<^verbatim>\<open>null\<close> is falsy, an array is an object whose keys are its indices.
\<close>

fun hasPayload :: "json option \<Rightarrow> bool" where
  "hasPayload (Some (JObj kvs)) = (kvs \<noteq> [])"
| "hasPayload (Some (JArr xs)) = (xs \<noteq> [])"
| "hasPayload _ = False"

definition errorMessage :: "thrown \<Rightarrow> string" where
  "errorMessage e = (case e of Error m \<Rightarrow> m | NonError v \<Rightarrow> ''Unknown error'')"

text \<open>
  The second half of \<^verbatim>\<open>executeHandler\<close>: the database gate, the call of the handler
  and the \<^verbatim>\<open>catch\<close> around it. \<open>isConnected\<close> is what
  \<^verbatim>\<open>checkDatabaseConnection()\<close> answers. A response sent without
  \<^verbatim>\<open>res.status\<close> has status 200.
\<close>

definition invokeHandler ::
  "'w modules \<Rightarrow> bool \<Rightarrow> string \<Rightarrow> json option \<Rightarrow> 'w handler \<Rightarrow> 'w server_state
     \<Rightarrow> response \<times> 'w server_state" where
  "invokeHandler M isConnected messageName payload handler st =
     (if messageName \<notin> handlersWithoutDatabase M \<and> \<not> isConnected
      then (\<lparr>status = 503,
              body = [(''success'', JBool False),
                      (''error'', JNum (UnknownError M)),
                      (''message'', JStr ''Database not connected. Please connect to database first.'')]\<rparr>,
            st)
      else
        (case handler (if hasPayload payload then payload else None) st of
           (Inr None, st1) \<Rightarrow>
             (\<lparr>status = 200, body = [(''success'', JBool True)]\<rparr>, st1)
         | (Inr (Some result), st1) \<Rightarrow>
             (\<lparr>status = 200, body = [(''success'', JBool True), (''data'', result)]\<rparr>, st1)
         | (Inl error, st1) \<Rightarrow>
             (\<lparr>status = 500,
               body = [(''success'', JBool False),
                       (''error'', JNum (getErrorCodeFromError M error)),
                       (''message'', JStr (errorMessage error))]\<rparr>,
              st1)))"

definition unauthorized :: "string \<Rightarrow> response" where
  "unauthorized message =
     \<lparr>status = 401,
      body = [(''success'', JBool False), (''error'', JStr ''UNAUTHORIZED''),
              (''message'', JStr message)]\<rparr>"

text \<open>
  \<^verbatim>\<open>executeHandler\<close>: the lookup, the authentication gate, then the rest.
  \<open>xSessionId\<close> is the header \<^verbatim>\<open>x-session-id\<close> (\<open>None\<close> when the request has
  none), \<open>authNow\<close> the clock that \<^verbatim>\<open>getSession\<close> reads.
\<close>

definition executeHandler ::
  "'w modules \<Rightarrow> bool \<Rightarrow> int \<Rightarrow> string \<Rightarrow> json option \<Rightarrow> string option \<Rightarrow> 'w server_state
     \<Rightarrow> response \<times> 'w server_state" where
  "executeHandler M isConnected authNow messageName payload xSessionId st =
     (case rendererHandlers M messageName of
        None \<Rightarrow>
          (\<lparr>status = 404,
            body = [(''success'', JBool False), (''error'', JStr ''Handler not found''),
                    (''messageName'', JStr messageName)]\<rparr>,
           st)
      | Some handler \<Rightarrow>
          if messageName \<notin> publicHandlers M
          then
            (case xSessionId of
               None \<Rightarrow> (unauthorized ''Authentication required'', st)
             | Some sid \<Rightarrow>
                 if sid = [] then (unauthorized ''Authentication required'', st)
                 else
                   (case getSession authNow sid st of
                      (None, st1) \<Rightarrow> (unauthorized ''Invalid or expired session'', st1)
                    | (Some session, st1) \<Rightarrow>
                        invokeHandler M isConnected messageName payload handler st1))
          else invokeHandler M isConnected messageName payload handler st)"

section \<open>Request transport: the four routes on \<^verbatim>\<open>/api/:messageName\<close>\<close>

datatype verb = GET | POST | PUT | DELETE

text \<open>
  A request that reaches one of the four routes (\<^verbatim>\<open>GET /api/health\<close> is answered by
  a route registered before them). \<open>param\<close> is \<^verbatim>\<open>req.params.messageName\<close>,
  \<open>query\<close> the parsed query string (an object, empty when there is none),
  \<open>reqBody\<close> the parsed body (\<open>None\<close> when the body parser left it undefined).
\<close>

record request =
  reqMethod :: verb
  param :: string
  query :: "(string \<times> json) list"
  reqBody :: "json option"
  sessionHeader :: "string option"

definition routePayload :: "request \<Rightarrow> json option" where
  "routePayload req =
     (case reqMethod req of
        POST \<Rightarrow> reqBody req
      | PUT \<Rightarrow> reqBody req
      | GET \<Rightarrow> (if query req \<noteq> [] then Some (JObj (query req)) else None)
      | DELETE \<Rightarrow> (if query req \<noteq> [] then Some (JObj (query req)) else reqBody req))"

definition apiRoute ::
  "'w modules \<Rightarrow> bool \<Rightarrow> int \<Rightarrow> request \<Rightarrow> 'w server_state \<Rightarrow> response \<times> 'w server_state" where
  "apiRoute M isConnected authNow req st =
     executeHandler M isConnected authNow (param req) (routePayload req) (sessionHeader req) st"

text \<open>
  The envelope as the specification words it: \<^verbatim>\<open>{success: true}\<close>,
  \<^verbatim>\<open>{success: true, data}\<close> or \<^verbatim>\<open>{success: false, error, message}\<close> with a text
  as message.
\<close>

text \<open>
  The two envelopes as the specification words them:
  \<^verbatim>\<open>{"success": true, "data": <value-or-absent>}\<close> and
  \<^verbatim>\<open>{"success": false, "error": <errorKind>, "message": <string>}\<close>.
\<close>

definition success_envelope :: "json option \<Rightarrow> (string \<times> json) list" where
  "success_envelope d =
     (case d of
        None \<Rightarrow> [(''success'', JBool True)]
      | Some v \<Rightarrow> [(''success'', JBool True), (''data'', v)])"

definition failure_envelope :: "json \<Rightarrow> string \<Rightarrow> (string \<times> json) list" where
  "failure_envelope e m = [(''success'', JBool False), (''error'', e), (''message'', JStr m)]"

text \<open>The same as a test on a body.\<close>

fun uniform_envelope :: "(string \<times> json) list \<Rightarrow> bool" where
  "uniform_envelope [(k1, JBool True)] = (k1 = ''success'')"
| "uniform_envelope [(k1, JBool True), (k2, d)] = (k1 = ''success'' \<and> k2 = ''data'')"
| "uniform_envelope [(k1, JBool False), (k2, e), (k3, JStr m)] =
     (k1 = ''success'' \<and> k2 = ''error'' \<and> k3 = ''message'')"
| "uniform_envelope kvs = False"

section \<open>Clients (\<^verbatim>\<open>ui/api/http-api-client\<close>, \<^verbatim>\<open>ui/api/hybrid-api-client\<close>)\<close>

text \<open>
  \<^verbatim>\<open>ApiResult\<close>, what \<^verbatim>\<open>httpClient.callHandler\<close> resolves to: the data, or the
  error field (an error code or a text) and the message.
\<close>

datatype ApiResult =
    ApiResponse json
  | ApiErrorResponse json "json option"

text \<open>A message: its name and the payload when it has one.\<close>

record message =
  message_name :: string
  message_payload :: "json option"

text \<open>
  The HTTP client is its transport: what \<^verbatim>\<open>httpClient.callHandler(name, payload)\<close>
  gives for a call (a rejection, or an \<^verbatim>\<open>ApiResult\<close>). \<open>unknownError\<close> is
  \<^verbatim>\<open>ErrorCode.UnknownError\<close>.
\<close>

record HttpApiClient =
  unknownError :: int
  httpCallHandler :: "string \<Rightarrow> json option \<Rightarrow> thrown + ApiResult"

text \<open>
  \<^verbatim>\<open>HttpApiClient.send\<close>: \<open>attempt\<close> is the \<^verbatim>\<open>try\<close> block, the \<open>case\<close> on it
  the \<^verbatim>\<open>catch\<close>, which rethrows a number and replaces anything else.
\<close>

definition HttpApiClient_send :: "HttpApiClient \<Rightarrow> message \<Rightarrow> thrown + json" where
  "HttpApiClient_send c m =
     (let attempt =
            (case httpCallHandler c (message_name m) (message_payload m) of
               Inl e \<Rightarrow> Inl e
             | Inr (ApiResponse d) \<Rightarrow> Inr d
             | Inr (ApiErrorResponse err msg) \<Rightarrow>
                 Inl (NonError (JNum (case err of JNum n \<Rightarrow> n | _ \<Rightarrow> unknownError c))))
      in case attempt of
           Inr d \<Rightarrow> Inr d
         | Inl (NonError (JNum n)) \<Rightarrow> Inl (NonError (JNum n))
         | Inl _ \<Rightarrow> Inl (NonError (JNum (unknownError c))))"

text \<open>
  The hybrid client holds an HTTP client and a WebSocket client (or \<^verbatim>\<open>null\<close>); the
  WebSocket client is the push channel, with a \<^verbatim>\<open>send\<close> of its own.
\<close>

record WebSocketClient =
  wsSend :: "message \<Rightarrow> thrown + json"

record HybridApiClient =
  httpClient :: HttpApiClient
  wsClient :: "WebSocketClient option"

definition HybridApiClient_send :: "HybridApiClient \<Rightarrow> message \<Rightarrow> thrown + json" where
  "HybridApiClient_send c m = HttpApiClient_send (httpClient c) m"

section \<open>A small deployment to run the definitions on\<close>

text \<open>
  Stand-ins for the parameters: a digest that is not SHA-256 (no property below depends
  on which function it is), message names in the style of the action names, a handler that
  returns its payload and counts its calls in \<open>world\<close>, a table with the login
  handler and that handler under six names, and the translation of thrown values that
  the specification describes, with 7 for \<^verbatim>\<open>ErrorCode.UnknownError\<close> and the nested
  code of a thrown object read from its field \<^verbatim>\<open>errorCode\<close>.
\<close>

definition test_runtime :: runtime where
  "test_runtime =
     \<lparr>sha256hex = (\<lambda>password. ''digest of '' @ password),
      destructureMessage = ''Cannot destructure property username of undefined'',
      invalidArgMessage = ''The data argument must be of type string''\<rparr>"

definition test_reads :: reads where
  "test_reads =
     \<lparr>idNow = 1000, random1 = ''k3j9x0a2bq7'', random2 = ''p0q8w7e6rz1'',
      createNow = 1000, cleanNow = 1001\<rparr>"

definition countingHandler :: "nat handler" where
  "countingHandler payload st = (Inr payload, st\<lparr>world := Suc (world st)\<rparr>)"

definition test_nestedCode :: "json \<Rightarrow> int option" where
  "test_nestedCode v = (case getProp v ''errorCode'' of Some (JNum code) \<Rightarrow> Some code | _ \<Rightarrow> None)"

definition test_modules :: "nat modules" where
  "test_modules =
     \<lparr>rendererHandlers =
        (\<lambda>messageName.
           if messageName = ''login'' then Some (loginHandler test_runtime test_reads)
           else if messageName \<in> {''initialize-application'', ''connect-database'', ''logout'',
                                   ''check-auth'', ''fetch-matches-table'', ''update-settings''}
           then Some countingHandler
           else None),
      getErrorCodeFromError = getErrorCodeFromError_spec 7 test_nestedCode,
      UnknownError = 7,
      InitializeApplication = ''initialize-application'',
      ConnectDatabase = ''connect-database'',
      Login = ''login'',
      Logout = ''logout'',
      CheckAuth = ''check-auth''\<rparr>"

definition test_state :: "nat server_state" where
  "test_state = initial_state test_runtime 500 0"

definition test_http :: HttpApiClient where
  "test_http =
     \<lparr>unknownError = 7,
      httpCallHandler =
        (\<lambda>messageName payload.
           if messageName = ''check-auth''
           then Inr (ApiResponse (JObj [(''authenticated'', JBool False)]))
           else if messageName = ''fetch-matches-table''
           then Inr (ApiErrorResponse (JStr ''UNAUTHORIZED'')
                       (Some (JStr ''Authentication required'')))
           else Inr (ApiErrorResponse (JNum 12) (Some (JStr ''Failed to fetch''))))\<rparr>"

section \<open>Auxiliary facts\<close>

declare digits.simps [simp del]

lemma getSession_Some_state:
  "fst (getSession t sid st) = Some s \<Longrightarrow> snd (getSession t sid st) = st"
  by (auto simp: getSession_def split: option.splits if_splits)

lemma getSession_keeps_rest:
  "users (snd (getSession t sid st)) = users st \<and> world (snd (getSession t sid st)) = world st"
  by (auto simp: getSession_def split: option.splits if_splits)

lemma invokeHandler_status:
  "status (fst (invokeHandler M c m p handler st)) \<in> {200, 500, 503}"
  by (auto simp: invokeHandler_def split: prod.splits sum.splits option.splits)

lemma invokeHandler_envelope:
  "uniform_envelope (body (fst (invokeHandler M c m p handler st)))"
  by (auto simp: invokeHandler_def split: prod.splits sum.splits option.splits)

section \<open>The authentication gate\<close>

text \<open>
  C1, as amended. Four operations are exempt from the authentication gate: initialize
  application, connect database, login and check auth. For a registered operation among
  them the session header is never looked at (the outcome is the one without a header)
  and the answer is never 401. Every other registered operation is answered 401 exactly
  when the request has no session header, an empty one, or one that \<^verbatim>\<open>getSession\<close>
  does not resolve to a live session.
\<close>

theorem authentication_gate_exemptions:
  assumes "rendererHandlers M m = Some handler"
  shows "if m \<in> {InitializeApplication M, ConnectDatabase M, Login M, CheckAuth M}
         then executeHandler M c t m p x st = executeHandler M c t m p None st \<and>
              status (fst (executeHandler M c t m p x st)) \<noteq> 401
         else (status (fst (executeHandler M c t m p x st)) = 401) =
              (case x of None \<Rightarrow> True
                       | Some sid \<Rightarrow> sid = [] \<or> fst (getSession t sid st) = None)"
proof (cases "m \<in> publicHandlers M")
  case True
  have "status (fst (invokeHandler M c m p handler st)) \<noteq> 401"
    using invokeHandler_status [of M c m p handler st] by auto
  with True assms show ?thesis
    by (simp add: executeHandler_def publicHandlers_def)
next
  case False
  have inv: "\<And>st1. status (fst (invokeHandler M c m p handler st1)) \<noteq> 401"
  proof -
    fix st1 show "status (fst (invokeHandler M c m p handler st1)) \<noteq> 401"
      using invokeHandler_status [of M c m p handler st1] by auto
  qed
  have "(status (fst (executeHandler M c t m p x st)) = 401) =
        (case x of None \<Rightarrow> True | Some sid \<Rightarrow> sid = [] \<or> fst (getSession t sid st) = None)"
    using False assms inv
    by (auto simp: executeHandler_def unauthorized_def split: option.splits prod.splits)
  with False show ?thesis
    by (simp add: publicHandlers_def)
qed

text \<open>
  An operation outside the four without a header is refused; connect database with a
  header that names no session is answered as without one.
\<close>

theorem authentication_gate_exemptions_witness:
  "rendererHandlers test_modules ''fetch-matches-table'' = Some countingHandler \<and>
   rendererHandlers test_modules ''connect-database'' = Some countingHandler \<and>
   status (fst (executeHandler test_modules True 0 ''fetch-matches-table'' None None test_state)) = 401 \<and>
   executeHandler test_modules True 0 ''connect-database'' None (Some ''no such session'') test_state =
     executeHandler test_modules True 0 ''connect-database'' None None test_state"
  using authentication_gate_exemptions [where M = test_modules and m = "''fetch-matches-table''"
          and handler = countingHandler and c = True and t = 0 and p = None and x = None
          and st = test_state]
        authentication_gate_exemptions [where M = test_modules and m = "''connect-database''"
          and handler = countingHandler and c = True and t = 0 and p = None
          and x = "Some ''no such session''" and st = test_state]
  by (simp add: test_modules_def)

text \<open>
  C1 as stated fails: connect database is registered, is none of initialize application,
  login and check auth, and a request for it without any session header runs the handler
  (the call counter goes from 0 to 1) and is answered 200.
\<close>

theorem connect_database_without_session:
  "rendererHandlers test_modules (ConnectDatabase test_modules) = Some countingHandler \<and>
   ConnectDatabase test_modules \<notin>
     {InitializeApplication test_modules, Login test_modules, CheckAuth test_modules} \<and>
   executeHandler test_modules False 0 (ConnectDatabase test_modules) None None test_state =
     (\<lparr>status = 200, body = [(''success'', JBool True)]\<rparr>, test_state\<lparr>world := 1\<rparr>)"
  by (simp add: test_modules_def executeHandler_def publicHandlers_def invokeHandler_def
        handlersWithoutDatabase_def countingHandler_def test_state_def initial_state_def
        createUser_def Let_def)

text \<open>
  C2. A registered operation that is not public, requested without a session header,
  with an empty one, or with one that does not resolve to a live session, is answered
  401 with the error \<^verbatim>\<open>UNAUTHORIZED\<close>, and its handler is not called: the users and
  the world are as before, and the outcome is the same whatever handler is registered
  under the name.
\<close>

theorem unauthorized_without_valid_session:
  assumes "rendererHandlers M m = Some handler"
      and "m \<notin> publicHandlers M"
      and "case x of None \<Rightarrow> True | Some sid \<Rightarrow> sid = [] \<or> fst (getSession t sid st) = None"
  shows "fst (executeHandler M c t m p x st) =
           \<lparr>status = 401,
            body = [(''success'', JBool False), (''error'', JStr ''UNAUTHORIZED''),
                    (''message'', JStr (if x = None \<or> x = Some []
                                        then ''Authentication required''
                                        else ''Invalid or expired session''))]\<rparr> \<and>
         world (snd (executeHandler M c t m p x st)) = world st \<and>
         users (snd (executeHandler M c t m p x st)) = users st \<and>
         executeHandler (M\<lparr>rendererHandlers := (rendererHandlers M)(m \<mapsto> other)\<rparr>) c t m p x st =
           executeHandler M c t m p x st"
proof (cases x)
  case None
  with assms show ?thesis
    by (simp add: executeHandler_def unauthorized_def publicHandlers_def)
next
  case (Some sid)
  show ?thesis
  proof (cases "sid = []")
    case True
    with Some assms show ?thesis
      by (simp add: executeHandler_def unauthorized_def publicHandlers_def)
  next
    case False
    with Some assms(3) have none: "fst (getSession t sid st) = None" by simp
    obtain st1 where g: "getSession t sid st = (None, st1)"
      using none by (cases "getSession t sid st") simp
    have keep: "users st1 = users st \<and> world st1 = world st"
      using getSession_keeps_rest [of t sid st] g by simp
    from Some False assms(1,2) g keep show ?thesis
      by (simp add: executeHandler_def unauthorized_def publicHandlers_def)
  qed
qed

text \<open>A call-counting handler behind a stale token: 401, and the counter stays at 0.\<close>

theorem unauthorized_without_valid_session_witness:
  "rendererHandlers test_modules ''update-settings'' = Some countingHandler \<and>
   ''update-settings'' \<notin> publicHandlers test_modules \<and>
   fst (getSession 2000 ''1000-stale-token'' test_state) = None \<and>
   status (fst (executeHandler test_modules True 2000 ''update-settings''
                  (Some (JObj [(''theme'', JStr ''dark'')])) (Some ''1000-stale-token'') test_state)) = 401 \<and>
   world (snd (executeHandler test_modules True 2000 ''update-settings''
                  (Some (JObj [(''theme'', JStr ''dark'')])) (Some ''1000-stale-token'') test_state)) = 0"
  using unauthorized_without_valid_session [where M = test_modules and m = "''update-settings''"
          and handler = countingHandler and c = True and t = 2000
          and p = "Some (JObj [(''theme'', JStr ''dark'')])" and x = "Some ''1000-stale-token''"
          and st = test_state and other = countingHandler]
  by (simp add: test_modules_def publicHandlers_def getSession_def test_state_def
        initial_state_def createUser_def Let_def)

section \<open>The database gate\<close>



section \<open>The shape of the response body\<close>

text \<open>
  C4, as amended. For a registered operation the four routes answer, outcome by outcome:
  refused by the authentication gate, 401 and the failure envelope with the error
  \<^verbatim>\<open>UNAUTHORIZED\<close>; stopped by the database gate, 503 and the failure envelope with
  \<^verbatim>\<open>ErrorCode.UnknownError\<close>; the handler returns nothing, 200 and
  \<^verbatim>\<open>{success: true}\<close>; the handler returns a value, 200 and
  \<^verbatim>\<open>{success: true, data}\<close> with that value; the handler throws, 500 and the failure
  envelope with the code \<^verbatim>\<open>getErrorCodeFromError\<close> gives and the message of the
  error. So the body is the uniform envelope whatever the status code. For a name that
  is not registered the answer is 404 with the body
  \<^verbatim>\<open>{success: false, error: 'Handler not found', messageName}\<close>.
\<close>

theorem response_envelope:
  "case rendererHandlers M (param req) of
     None \<Rightarrow>
       fst (apiRoute M c t req st) =
         \<lparr>status = 404,
          body = [(''success'', JBool False), (''error'', JStr ''Handler not found''),
                  (''messageName'', JStr (param req))]\<rparr>
   | Some handler \<Rightarrow>
       uniform_envelope (body (fst (apiRoute M c t req st))) \<and>
       fst (apiRoute M c t req st) =
         (if param req \<notin> publicHandlers M \<and>
             (case sessionHeader req of
                None \<Rightarrow> True
              | Some sid \<Rightarrow> sid = [] \<or> fst (getSession t sid st) = None)
          then \<lparr>status = 401,
                body = failure_envelope (JStr ''UNAUTHORIZED'')
                         (if sessionHeader req = None \<or> sessionHeader req = Some []
                          then ''Authentication required''
                          else ''Invalid or expired session'')\<rparr>
          else if param req \<notin> handlersWithoutDatabase M \<and> \<not> c
          then \<lparr>status = 503,
                body = failure_envelope (JNum (UnknownError M))
                         ''Database not connected. Please connect to database first.''\<rparr>
          else
            (case fst (handler (if hasPayload (routePayload req) then routePayload req
                                else None) st) of
               Inr result \<Rightarrow> \<lparr>status = 200, body = success_envelope result\<rparr>
             | Inl error \<Rightarrow>
                 \<lparr>status = 500,
                  body = failure_envelope (JNum (getErrorCodeFromError M error))
                           (errorMessage error)\<rparr>))"
proof (cases "rendererHandlers M (param req)")
  case None
  then show ?thesis by (simp add: apiRoute_def executeHandler_def)
next
  case registered: (Some handler)
  have env: "\<And>p st1. uniform_envelope (body (fst (invokeHandler M c (param req) p handler st1)))"
    by (rule invokeHandler_envelope)
  have shape: "uniform_envelope (body (fst (apiRoute M c t req st)))"
    using registered env
    by (auto simp: apiRoute_def executeHandler_def unauthorized_def
             split: option.splits prod.splits)
  have inv: "\<And>p. fst (invokeHandler M c (param req) p handler st) =
          (if param req \<notin> handlersWithoutDatabase M \<and> \<not> c
           then \<lparr>status = 503,
                 body = failure_envelope (JNum (UnknownError M))
                          ''Database not connected. Please connect to database first.''\<rparr>
           else
             (case fst (handler (if hasPayload p then p else None) st) of
                Inr result \<Rightarrow> \<lparr>status = 200, body = success_envelope result\<rparr>
              | Inl error \<Rightarrow>
                  \<lparr>status = 500,
                   body = failure_envelope (JNum (getErrorCodeFromError M error))
                            (errorMessage error)\<rparr>))"
    by (auto simp: invokeHandler_def failure_envelope_def success_envelope_def
             split: prod.splits sum.splits option.splits)
  have outcome: "fst (apiRoute M c t req st) =
         (if param req \<notin> publicHandlers M \<and>
             (case sessionHeader req of
                None \<Rightarrow> True
              | Some sid \<Rightarrow> sid = [] \<or> fst (getSession t sid st) = None)
          then \<lparr>status = 401,
                body = failure_envelope (JStr ''UNAUTHORIZED'')
                         (if sessionHeader req = None \<or> sessionHeader req = Some []
                          then ''Authentication required''
                          else ''Invalid or expired session'')\<rparr>
          else if param req \<notin> handlersWithoutDatabase M \<and> \<not> c
          then \<lparr>status = 503,
                body = failure_envelope (JNum (UnknownError M))
                         ''Database not connected. Please connect to database first.''\<rparr>
          else
            (case fst (handler (if hasPayload (routePayload req) then routePayload req
                                else None) st) of
               Inr result \<Rightarrow> \<lparr>status = 200, body = success_envelope result\<rparr>
             | Inl error \<Rightarrow>
                 \<lparr>status = 500,
                  body = failure_envelope (JNum (getErrorCodeFromError M error))
                           (errorMessage error)\<rparr>))"
  proof (cases "param req \<in> publicHandlers M")
    case True
    with registered inv show ?thesis
      by (simp add: apiRoute_def executeHandler_def)
  next
    case notpublic: False
    show ?thesis
    proof (cases "sessionHeader req")
      case None
      with registered notpublic show ?thesis
        by (simp add: apiRoute_def executeHandler_def unauthorized_def failure_envelope_def)
    next
      case hdr: (Some sid)
      show ?thesis
      proof (cases "sid = []")
        case True
        with registered notpublic hdr show ?thesis
          by (simp add: apiRoute_def executeHandler_def unauthorized_def failure_envelope_def)
      next
        case nonempty: False
        show ?thesis
        proof (cases "fst (getSession t sid st)")
          case None
          then obtain st1 where g: "getSession t sid st = (None, st1)"
            by (cases "getSession t sid st") simp
          with registered notpublic hdr nonempty show ?thesis
            by (simp add: apiRoute_def executeHandler_def unauthorized_def failure_envelope_def)
        next
          case (Some session)
          then have g: "getSession t sid st = (Some session, st)"
            using getSession_Some_state [of t sid st session]
            by (cases "getSession t sid st") simp
          with registered notpublic hdr nonempty inv show ?thesis
            by (simp add: apiRoute_def executeHandler_def)
        qed
      qed
    qed
  qed
  show ?thesis
    unfolding registered option.case
    by (rule conjI [OF shape outcome])
qed

text \<open>
  A failed login, a connect database that returns its payload, one that returns nothing,
  and a request without a session, each with its envelope.
\<close>

theorem response_envelope_witness:
  "rendererHandlers test_modules ''login'' = Some (loginHandler test_runtime test_reads) \<and>
   rendererHandlers test_modules ''connect-database'' = Some countingHandler \<and>
   rendererHandlers test_modules ''update-settings'' = Some countingHandler \<and>
   fst (apiRoute test_modules True 0
      \<lparr>reqMethod = POST, param = ''login'', query = [],
       reqBody = Some (JObj [(''username'', JStr ''admin''), (''password'', JStr ''wrong'')]),
       sessionHeader = None\<rparr> test_state) =
     \<lparr>status = 500,
      body = [(''success'', JBool False), (''error'', JNum 7),
              (''message'', JStr ''Invalid username or password'')]\<rparr> \<and>
   fst (apiRoute test_modules False 0
      \<lparr>reqMethod = POST, param = ''connect-database'', query = [],
       reqBody = Some (JObj [(''port'', JNum 5432)]), sessionHeader = None\<rparr> test_state) =
     \<lparr>status = 200,
      body = [(''success'', JBool True), (''data'', JObj [(''port'', JNum 5432)])]\<rparr> \<and>
   fst (apiRoute test_modules False 0
      \<lparr>reqMethod = GET, param = ''connect-database'', query = [],
       reqBody = None, sessionHeader = None\<rparr> test_state) =
     \<lparr>status = 200, body = [(''success'', JBool True)]\<rparr> \<and>
   fst (apiRoute test_modules True 0
      \<lparr>reqMethod = PUT, param = ''update-settings'', query = [],
       reqBody = Some (JObj [(''theme'', JStr ''dark'')]), sessionHeader = None\<rparr> test_state) =
     \<lparr>status = 401,
      body = [(''success'', JBool False), (''error'', JStr ''UNAUTHORIZED''),
              (''message'', JStr ''Authentication required'')]\<rparr>"
  using response_envelope [where M = test_modules and c = True and t = 0 and st = test_state
          and req = "\<lparr>reqMethod = POST, param = ''login'', query = [],
       reqBody = Some (JObj [(''username'', JStr ''admin''), (''password'', JStr ''wrong'')]),
       sessionHeader = None\<rparr>"]
        response_envelope [where M = test_modules and c = False and t = 0 and st = test_state
          and req = "\<lparr>reqMethod = POST, param = ''connect-database'', query = [],
       reqBody = Some (JObj [(''port'', JNum 5432)]), sessionHeader = None\<rparr>"]
        response_envelope [where M = test_modules and c = False and t = 0 and st = test_state
          and req = "\<lparr>reqMethod = GET, param = ''connect-database'', query = [],
       reqBody = None, sessionHeader = None\<rparr>"]
        response_envelope [where M = test_modules and c = True and t = 0 and st = test_state
          and req = "\<lparr>reqMethod = PUT, param = ''update-settings'', query = [],
       reqBody = Some (JObj [(''theme'', JStr ''dark'')]), sessionHeader = None\<rparr>"]
  by (simp add: test_modules_def publicHandlers_def handlersWithoutDatabase_def routePayload_def
        failure_envelope_def success_envelope_def errorMessage_def countingHandler_def
        loginHandler_def verifyCredentials_def hashPassword_def test_runtime_def test_state_def
        initial_state_def createUser_def getErrorCodeFromError_spec_def Let_def)

text \<open>
  C4 as stated fails in the unknown-operation case: the body has the field
  \<^verbatim>\<open>messageName\<close> and no field \<^verbatim>\<open>message\<close>.
\<close>

theorem unknown_operation_body:
  "rendererHandlers test_modules ''no-such-operation'' = None \<and>
   body (fst (apiRoute test_modules True 0
                \<lparr>reqMethod = POST, param = ''no-such-operation'', query = [], reqBody = None,
                 sessionHeader = None\<rparr> test_state)) =
     [(''success'', JBool False), (''error'', JStr ''Handler not found''),
      (''messageName'', JStr ''no-such-operation'')] \<and>
   \<not> uniform_envelope (body (fst (apiRoute test_modules True 0
                \<lparr>reqMethod = POST, param = ''no-such-operation'', query = [], reqBody = None,
                 sessionHeader = None\<rparr> test_state)))"
  by (simp add: apiRoute_def executeHandler_def test_modules_def)

section \<open>Session lifetime\<close>

text \<open>
  C5. Let \<open>s\<close> be the session returned by \<^verbatim>\<open>createSession(u)\<close>. Its user is \<open>u\<close>.
  The store holds \<open>s\<close> under its token (unless the sweep inside \<^verbatim>\<open>createSession\<close>
  already ran after its expiry). A later \<^verbatim>\<open>getSession(s.sessionId)\<close> (later: the
  clock has not been set back since that sweep) returns \<open>s\<close> and leaves the store as
  it is while the clock is not after \<open>expiresAt s\<close>; strictly after, it returns
  nothing and the store no longer holds the session.
\<close>

theorem getSession_after_createSession:
  assumes "createSession r u st = (s, st1)"
      and "cleanNow r \<le> t"
  shows "username s = u \<and>
         (cleanNow r \<le> expiresAt s \<longrightarrow> sessions st1 (sessionId s) = Some s) \<and>
         (if t \<le> expiresAt s
          then getSession t (sessionId s) st1 = (Some s, st1)
          else fst (getSession t (sessionId s) st1) = None \<and>
               sessions (snd (getSession t (sessionId s) st1)) (sessionId s) = None)"
  using assms
  by (auto simp: createSession_def getSession_def cleanExpiredSessions_def Let_def
           split: option.splits if_splits)

text \<open>
  A session created at 1000: found at 2000, gone one millisecond after its expiry.
\<close>

theorem getSession_after_createSession_witness:
  "cleanNow test_reads \<le> 2000 \<and> cleanNow test_reads \<le> 1000 + SESSION_DURATION_MS + 1 \<and>
   username (fst (createSession test_reads ''alice'' test_state)) = ''alice'' \<and>
   expiresAt (fst (createSession test_reads ''alice'' test_state)) = 1000 + SESSION_DURATION_MS \<and>
   fst (getSession 2000 (generateSessionId test_reads)
          (snd (createSession test_reads ''alice'' test_state))) =
     Some (fst (createSession test_reads ''alice'' test_state)) \<and>
   fst (getSession (1000 + SESSION_DURATION_MS + 1) (generateSessionId test_reads)
          (snd (createSession test_reads ''alice'' test_state))) = None \<and>
   sessions (snd (getSession (1000 + SESSION_DURATION_MS + 1) (generateSessionId test_reads)
                    (snd (createSession test_reads ''alice'' test_state))))
     (generateSessionId test_reads) = None"
  using getSession_after_createSession [of test_reads "''alice''" test_state
          "fst (createSession test_reads ''alice'' test_state)"
          "snd (createSession test_reads ''alice'' test_state)" 2000]
        getSession_after_createSession [of test_reads "''alice''" test_state
          "fst (createSession test_reads ''alice'' test_state)"
          "snd (createSession test_reads ''alice'' test_state)" "1000 + SESSION_DURATION_MS + 1"]
  by (simp add: createSession_def test_reads_def SESSION_DURATION_MS_def Let_def)

section \<open>Revoking the sessions of a user\<close>

text \<open>
  C7, as amended. \<^verbatim>\<open>deleteUserSessions(u)\<close> removes every session of the user
  \<open>u\<close>, so that \<^verbatim>\<open>getSession\<close> finds none of them afterwards, and keeps the sessions
  of the others. \<^verbatim>\<open>updatePassword\<close> replaces the password hash only: the session
  store is the same after it.
\<close>

theorem deleteUserSessions_revokes:
  "(sessions st k = Some s \<and> username s = u \<longrightarrow>
      fst (getSession t k (deleteUserSessions u st)) = None) \<and>
   (sessions st k = Some s \<and> username s \<noteq> u \<longrightarrow>
      sessions (deleteUserSessions u st) k = Some s) \<and>
   sessions (snd (updatePassword rt u newPassword st)) = sessions st"
  by (auto simp: getSession_def deleteUserSessions_def updatePassword_def split: option.splits)

text \<open>The session of admin is gone after the sessions of admin have been deleted.\<close>

theorem deleteUserSessions_revokes_witness:
  "sessions (snd (createSession test_reads ''admin'' test_state)) (generateSessionId test_reads)
     = Some (fst (createSession test_reads ''admin'' test_state)) \<and>
   username (fst (createSession test_reads ''admin'' test_state)) = ''admin'' \<and>
   fst (getSession 2000 (generateSessionId test_reads)
          (deleteUserSessions ''admin'' (snd (createSession test_reads ''admin'' test_state)))) = None"
  using deleteUserSessions_revokes [where st = "snd (createSession test_reads ''admin'' test_state)"
          and k = "generateSessionId test_reads"
          and s = "fst (createSession test_reads ''admin'' test_state)"
          and u = "''admin''" and t = 2000]
  by (simp add: createSession_def cleanExpiredSessions_def test_reads_def
        SESSION_DURATION_MS_def Let_def)

text \<open>
  C7 as stated fails: admin logs in, the password of admin is changed (the call returns
  true), and the token issued before is still good.
\<close>

theorem session_survives_updatePassword:
  "fst (updatePassword test_runtime ''admin'' ''a new password''
          (snd (createSession test_reads ''admin'' test_state))) = True \<and>
   fst (getSession 2000 (sessionId (fst (createSession test_reads ''admin'' test_state)))
          (snd (updatePassword test_runtime ''admin'' ''a new password''
                  (snd (createSession test_reads ''admin'' test_state))))) =
     Some \<lparr>sessionId = generateSessionId test_reads, username = ''admin'', createdAt = 1000,
           expiresAt = 1000 + SESSION_DURATION_MS\<rparr>"
  by (simp add: updatePassword_def createSession_def cleanExpiredSessions_def getSession_def
        test_reads_def test_state_def initial_state_def createUser_def SESSION_DURATION_MS_def
        Let_def)

section \<open>Login\<close>




text \<open>
  C10. The user store starts with the user admin whose stored hash is the digest of
  \<^verbatim>\<open>admin\<close>; \<^verbatim>\<open>verifyCredentials('admin', 'admin')\<close> is true on it; and login with
  these credentials on the state after start-up is answered 200 with the new session's
  token, whatever the session header and whether or not the database is connected.
\<close>

theorem default_admin_login:
  assumes "rendererHandlers M (Login M) = Some (loginHandler rt r)"
  shows "users (initial_state rt now w) ''admin'' =
           Some \<lparr>user_username = ''admin'', passwordHash = sha256hex rt ''admin'',
                 user_createdAt = now\<rparr> \<and>
         verifyCredentials rt ''admin'' ''admin'' (initial_state rt now w) \<and>
         executeHandler M c t (Login M)
           (Some (JObj [(''username'', JStr ''admin''), (''password'', JStr ''admin'')])) x
           (initial_state rt now w) =
           (\<lparr>status = 200,
             body = [(''success'', JBool True),
                     (''data'', JObj [(''success'', JBool True),
                                      (''sessionId'', JStr (generateSessionId r)),
                                      (''username'', JStr ''admin'')])]\<rparr>,
            snd (createSession r ''admin'' (initial_state rt now w)))"
proof -
  have u: "users (initial_state rt now w) ''admin'' =
           Some \<lparr>user_username = ''admin'', passwordHash = sha256hex rt ''admin'',
                 user_createdAt = now\<rparr>"
    by (simp add: initial_state_def createUser_def hashPassword_def Let_def)
  have v: "verifyCredentials rt ''admin'' ''admin'' (initial_state rt now w)"
    using u by (simp add: verifyCredentials_def hashPassword_def)
  have login: "loginHandler rt r
           (Some (JObj [(''username'', JStr ''admin''), (''password'', JStr ''admin'')]))
           (initial_state rt now w) =
        (Inr (Some (JObj [(''success'', JBool True),
                          (''sessionId'', JStr (generateSessionId r)),
                          (''username'', JStr ''admin'')])),
         snd (createSession r ''admin'' (initial_state rt now w)))"
    using v by (simp add: loginHandler_def createSession_def Let_def)
  show ?thesis
    using assms u v login
    by (simp add: executeHandler_def publicHandlers_def invokeHandler_def
          handlersWithoutDatabase_def)
qed

text \<open>The same on the small deployment, without a database.\<close>

theorem default_admin_login_witness:
  "rendererHandlers test_modules (Login test_modules) = Some (loginHandler test_runtime test_reads) \<and>
   verifyCredentials test_runtime ''admin'' ''admin'' test_state \<and>
   status (fst (executeHandler test_modules False 0 (Login test_modules)
           (Some (JObj [(''username'', JStr ''admin''), (''password'', JStr ''admin'')])) None
           test_state)) = 200"
  using default_admin_login [where M = test_modules and rt = test_runtime and r = test_reads
          and now = 500 and w = 0 and c = False and t = 0 and x = None]
  by (simp add: test_modules_def test_state_def)

section \<open>The hybrid client\<close>

text \<open>
  C9. \<^verbatim>\<open>send\<close> of the hybrid client is \<^verbatim>\<open>send\<close> of its HTTP client, whatever its
  WebSocket client is. It returns the data when the HTTP call succeeded; when the call
  resolved to a failure it throws the number in the error field, or
  \<^verbatim>\<open>ErrorCode.UnknownError\<close> when the field is not a number; when the call was
  rejected it throws the rejected number, or \<^verbatim>\<open>ErrorCode.UnknownError\<close>. So every
  failure reaches the caller as a thrown number.
\<close>

theorem hybrid_send_over_http:
  "HybridApiClient_send c m = HttpApiClient_send (httpClient c) m \<and>
   HybridApiClient_send (c\<lparr>wsClient := w\<rparr>) m = HybridApiClient_send c m \<and>
   (case httpCallHandler (httpClient c) (message_name m) (message_payload m) of
      Inr (ApiResponse d) \<Rightarrow> HybridApiClient_send c m = Inr d
    | Inr (ApiErrorResponse err msg) \<Rightarrow>
        HybridApiClient_send c m =
          Inl (NonError (JNum (case err of JNum n \<Rightarrow> n | _ \<Rightarrow> unknownError (httpClient c))))
    | Inl e \<Rightarrow>
        HybridApiClient_send c m =
          Inl (NonError (JNum (case e of NonError (JNum n) \<Rightarrow> n
                                       | _ \<Rightarrow> unknownError (httpClient c)))))"
  by (auto simp: HybridApiClient_send_def HttpApiClient_send_def Let_def
           split: sum.splits ApiResult.splits thrown.splits json.splits)

text \<open>
  A call answered \<^verbatim>\<open>UNAUTHORIZED\<close> throws \<^verbatim>\<open>ErrorCode.UnknownError\<close>; a call that
  succeeds returns its data.
\<close>

theorem hybrid_send_over_http_witness:
  "HybridApiClient_send \<lparr>httpClient = test_http, wsClient = None\<rparr>
     \<lparr>message_name = ''fetch-matches-table'', message_payload = None\<rparr> = Inl (NonError (JNum 7)) \<and>
   HybridApiClient_send \<lparr>httpClient = test_http, wsClient = None\<rparr>
     \<lparr>message_name = ''check-auth'', message_payload = Some (JObj [(''sessionId'', JStr ''1000-a-b'')])\<rparr> =
     Inr (JObj [(''authenticated'', JBool False)])"
  using hybrid_send_over_http [where c = "\<lparr>httpClient = test_http, wsClient = None\<rparr>"
          and m = "\<lparr>message_name = ''fetch-matches-table'', message_payload = None\<rparr>"
          and w = None, THEN conjunct2, THEN conjunct2]
        hybrid_send_over_http [where c = "\<lparr>httpClient = test_http, wsClient = None\<rparr>"
          and w = None
          and m = "\<lparr>message_name = ''check-auth'', message_payload = Some (JObj [(''sessionId'', JStr ''1000-a-b'')])\<rparr>",
          THEN conjunct2, THEN conjunct2]
  by (simp add: test_http_def)

end
